theory Spec2Isabelle
  imports Main "HOL-Library.Sublist"
begin

section \<open>The local configuration store of the VPC command-line tool\<close>

text \<open>
  The development embeds \<^verbatim>\<open>main.py\<close>: the naming function
  \<^verbatim>\<open>_parse_config_file_name\<close>, the loader \<^verbatim>\<open>_load_config\<close> and the four
  commands \<^verbatim>\<open>configure-vpc\<close>, \<^verbatim>\<open>remove-vpc\<close>, \<^verbatim>\<open>configure-subnet\<close> and
  \<^verbatim>\<open>remove-subnet\<close>. Python strings are modelled as \<^typ>\<open>string\<close>; a leading
  underscore of a Python name is dropped, since an Isabelle name starts with a letter.
\<close>

subsection \<open>File names\<close>

text \<open>
  \<^verbatim>\<open>str.lower\<close> on the ASCII letters; the two tags the commands pass, \<^verbatim>\<open>"vpc"\<close> and
  \<^verbatim>\<open>"subnet"\<close>, contain nothing else.
\<close>

definition lower_char :: "char \<Rightarrow> char" where
  "lower_char c =
     (let n = (of_char c :: nat) in if 65 \<le> n \<and> n \<le> 90 then char_of (n + 32) else c)"

definition lower :: "string \<Rightarrow> string" where
  "lower s = map lower_char s"

text \<open>\<^verbatim>\<open>resource_name.replace('-', '_')\<close>: every hyphen becomes an underscore.\<close>

definition replace_hyphen :: "string \<Rightarrow> string" where
  "replace_hyphen s = map (\<lambda>c. if c = CHR ''-'' then CHR ''_'' else c) s"

text \<open>
  \<^verbatim>\<open>
  def _parse_config_file_name(resource_name: str, resource_type: str):
      return f"{resource_type.lower()}_{resource_name.replace('-', '_')}_config.json"
  \<close>
\<close>

definition parse_config_file_name :: "string \<Rightarrow> string \<Rightarrow> string" where
  "parse_config_file_name resource_name resource_type =
     lower resource_type @ ''_'' @ replace_hyphen resource_name @ ''_config.json''"

text \<open>\<^verbatim>\<open>str.startswith\<close>.\<close>

definition startswith :: "string \<Rightarrow> string \<Rightarrow> bool" where
  "startswith s p = (take (length p) s = p)"

subsection \<open>Errors, JSON documents and records\<close>

text \<open>
  \<^verbatim>\<open>main.py\<close> catches no exception, so an error aborts the command at the point
  where it is raised. The errors carry the names of the specification:
  \<open>NotFoundError\<close> is Python's \<^verbatim>\<open>FileNotFoundError\<close>, raised by \<^verbatim>\<open>open\<close> and
  \<^verbatim>\<open>os.remove\<close> on a missing file; \<open>MalformedConfigError\<close> is
  \<^verbatim>\<open>json.JSONDecodeError\<close>, raised by \<^verbatim>\<open>json.load\<close>, and the error of a record
  whose document has the wrong shape; \<open>RemoteAPIError\<close> is whatever the cloud client
  raises; \<open>ValueError\<close> is the rejection of a value by a record's constructor;
  \<open>AttributeError\<close> is an attribute read on \<^verbatim>\<open>None\<close>.
\<close>

datatype error =
    NotFoundError
  | MalformedConfigError
  | RemoteAPIError string
  | ValueError
  | AttributeError

text \<open>
  \<^verbatim>\<open>json.dump\<close> and \<^verbatim>\<open>json.load\<close> belong to Python's library. A file is
  represented by the JSON document its text denotes, or by \<open>NotJson\<close> when
  \<^verbatim>\<open>json.load\<close> rejects the text (an empty or truncated file, for instance).
\<close>

datatype json =
    JNull
  | JBool bool
  | JInt int
  | JString string
  | JArray "json list"
  | JObject "(string \<times> json) list"

datatype file_content = NotJson | Document json

text \<open>
  The fields of \<^verbatim>\<open>VpcConfig\<close> are those \<^verbatim>\<open>configure_vpc\<close> passes to the
  constructor and those it assigns afterwards. An identifier is \<^verbatim>\<open>None\<close> until its
  create call has returned.
\<close>

record vpc_config =
  region :: string
  vpc_cidr :: string
  vpc_name :: string
  sg_name :: string
  igw_name :: string
  vpc_id :: "string option"
  sg_id :: "string option"
  igw_id :: "string option"

text \<open>
  \<^verbatim>\<open>SubnetConfig\<close> is built from a loaded VPC record and four options;
  \<^verbatim>\<open>remove_subnet\<close> reads \<^verbatim>\<open>subnet_config.region\<close>, so the parent's fields are
  part of the subnet record (\<open>vpc_fields\<close>). \<^verbatim>\<open>configure_subnet\<close> passes
  \<^verbatim>\<open>is_public\<close> to \<^verbatim>\<open>commands.create_route_table\<close> only, not to the record.
\<close>

record subnet_config =
  vpc_fields :: vpc_config
  subnet_name :: string
  cidr_substitute :: int
  az_postfix :: string
  rt_name :: string
  subnet_id :: "string option"
  rt_id :: "string option"
  subnet_rt_association_id :: "string option"

text \<open>What \<^verbatim>\<open>_load_config\<close> can return: a VPC record, a subnet record or \<^verbatim>\<open>None\<close>.\<close>

datatype config = Vpc vpc_config | Subnet subnet_config | PyNone

text \<open>Reading a VPC attribute (\<^verbatim>\<open>.region\<close> and the like) of a loaded object.\<close>

fun vpc_fields_of :: "config \<Rightarrow> error + vpc_config" where
  "vpc_fields_of (Vpc v) = Inr v"
| "vpc_fields_of (Subnet s) = Inr (vpc_fields s)"
| "vpc_fields_of PyNone = Inl AttributeError"

definition region_of :: "config \<Rightarrow> error + string" where
  "region_of c = (case vpc_fields_of c of Inl e \<Rightarrow> Inl e | Inr v \<Rightarrow> Inr (region v))"

subsection \<open>The record classes of \<^verbatim>\<open>configs.py\<close>\<close>

text \<open>
  Modelled from the spec: the module \<^verbatim>\<open>configs.py\<close> (the constructors of
  \<^verbatim>\<open>VpcConfig\<close> and \<^verbatim>\<open>SubnetConfig\<close>, their \<^verbatim>\<open>__dict__\<close> and their
  \<^verbatim>\<open>from_config\<close>) is not part of the sources. The specification's data model gives
  the fields; a record is written as a flat key-value document of all its fields,
  identifiers included; reading fails with \<open>MalformedConfigError\<close> when the document
  does not have the shape of the record; the CIDR-octet substitute of a subnet record
  is an integer constrained to 5..254.
\<close>

definition VpcConfig_init ::
  "string \<Rightarrow> string \<Rightarrow> string \<Rightarrow> string \<Rightarrow> string \<Rightarrow> vpc_config" where
  "VpcConfig_init region' vpc_cidr' vpc_name' sg_name' igw_name' =
     \<lparr>region = region', vpc_cidr = vpc_cidr', vpc_name = vpc_name', sg_name = sg_name',
      igw_name = igw_name', vpc_id = None, sg_id = None, igw_id = None\<rparr>"

fun json_of_id :: "string option \<Rightarrow> json" where
  "json_of_id None = JNull"
| "json_of_id (Some i) = JString i"

definition VpcConfig_dict :: "vpc_config \<Rightarrow> (string \<times> json) list" where
  "VpcConfig_dict v =
     [(''region'', JString (region v)),
      (''vpc_cidr'', JString (vpc_cidr v)),
      (''vpc_name'', JString (vpc_name v)),
      (''sg_name'', JString (sg_name v)),
      (''igw_name'', JString (igw_name v)),
      (''vpc_id'', json_of_id (vpc_id v)),
      (''sg_id'', json_of_id (sg_id v)),
      (''igw_id'', json_of_id (igw_id v))]"

definition SubnetConfig_dict :: "subnet_config \<Rightarrow> (string \<times> json) list" where
  "SubnetConfig_dict s =
     VpcConfig_dict (vpc_fields s) @
     [(''subnet_name'', JString (subnet_name s)),
      (''cidr_substitute'', JInt (cidr_substitute s)),
      (''az_postfix'', JString (az_postfix s)),
      (''rt_name'', JString (rt_name s)),
      (''subnet_id'', json_of_id (subnet_id s)),
      (''rt_id'', json_of_id (rt_id s)),
      (''subnet_rt_association_id'', json_of_id (subnet_rt_association_id s))]"

text \<open>Typed reads of a key of a document: a string, an identifier (string or null), an integer.\<close>

fun get_str :: "(string \<times> json) list \<Rightarrow> string \<Rightarrow> string option" where
  "get_str kv k = (case map_of kv k of Some (JString x) \<Rightarrow> Some x | _ \<Rightarrow> None)"

fun get_id :: "(string \<times> json) list \<Rightarrow> string \<Rightarrow> string option option" where
  "get_id kv k =
     (case map_of kv k of Some (JString x) \<Rightarrow> Some (Some x) | Some JNull \<Rightarrow> Some None
      | _ \<Rightarrow> None)"

fun get_int :: "(string \<times> json) list \<Rightarrow> string \<Rightarrow> int option" where
  "get_int kv k = (case map_of kv k of Some (JInt x) \<Rightarrow> Some x | _ \<Rightarrow> None)"

definition cidr_substitute_ok :: "int \<Rightarrow> bool" where
  "cidr_substitute_ok n = (5 \<le> n \<and> n \<le> 254)"

definition vpc_of_dict :: "(string \<times> json) list \<Rightarrow> vpc_config option" where
  "vpc_of_dict kv =
     Option.bind (get_str kv ''region'') (\<lambda>a.
     Option.bind (get_str kv ''vpc_cidr'') (\<lambda>b.
     Option.bind (get_str kv ''vpc_name'') (\<lambda>c.
     Option.bind (get_str kv ''sg_name'') (\<lambda>d.
     Option.bind (get_str kv ''igw_name'') (\<lambda>e.
     Option.bind (get_id kv ''vpc_id'') (\<lambda>f.
     Option.bind (get_id kv ''sg_id'') (\<lambda>g.
     Option.bind (get_id kv ''igw_id'') (\<lambda>h.
       Some \<lparr>region = a, vpc_cidr = b, vpc_name = c, sg_name = d, igw_name = e,
             vpc_id = f, sg_id = g, igw_id = h\<rparr>))))))))"

definition subnet_of_dict :: "(string \<times> json) list \<Rightarrow> subnet_config option" where
  "subnet_of_dict kv =
     Option.bind (vpc_of_dict kv) (\<lambda>v.
     Option.bind (get_str kv ''subnet_name'') (\<lambda>a.
     Option.bind (get_int kv ''cidr_substitute'') (\<lambda>b.
     Option.bind (get_str kv ''az_postfix'') (\<lambda>c.
     Option.bind (get_str kv ''rt_name'') (\<lambda>d.
     Option.bind (get_id kv ''subnet_id'') (\<lambda>f.
     Option.bind (get_id kv ''rt_id'') (\<lambda>g.
     Option.bind (get_id kv ''subnet_rt_association_id'') (\<lambda>h.
       if cidr_substitute_ok b
       then Some \<lparr>vpc_fields = v, subnet_name = a, cidr_substitute = b, az_postfix = c,
                  rt_name = d, subnet_id = f, rt_id = g, subnet_rt_association_id = h\<rparr>
       else None))))))))"

definition VpcConfig_from_config :: "json \<Rightarrow> error + vpc_config" where
  "VpcConfig_from_config config =
     (case config of
        JObject kv \<Rightarrow>
          (case vpc_of_dict kv of None \<Rightarrow> Inl MalformedConfigError | Some v \<Rightarrow> Inr v)
      | _ \<Rightarrow> Inl MalformedConfigError)"

definition SubnetConfig_from_config :: "json \<Rightarrow> error + subnet_config" where
  "SubnetConfig_from_config config =
     (case config of
        JObject kv \<Rightarrow>
          (case subnet_of_dict kv of None \<Rightarrow> Inl MalformedConfigError | Some s \<Rightarrow> Inr s)
      | _ \<Rightarrow> Inl MalformedConfigError)"

text \<open>
  The shape of a record's document, stated on the document alone: every text field is
  a string, every identifier a string or null, the CIDR-octet substitute an integer
  within its range.
\<close>

fun is_str :: "json option \<Rightarrow> bool" where
  "is_str (Some (JString x)) = True"
| "is_str _ = False"

fun is_id :: "json option \<Rightarrow> bool" where
  "is_id (Some (JString x)) = True"
| "is_id (Some JNull) = True"
| "is_id _ = False"

fun is_cidr_substitute :: "json option \<Rightarrow> bool" where
  "is_cidr_substitute (Some (JInt n)) = cidr_substitute_ok n"
| "is_cidr_substitute _ = False"

fun vpc_shape :: "json \<Rightarrow> bool" where
  "vpc_shape (JObject kv) =
     (list_all (\<lambda>k. is_str (map_of kv k))
        [''region'', ''vpc_cidr'', ''vpc_name'', ''sg_name'', ''igw_name''] \<and>
      list_all (\<lambda>k. is_id (map_of kv k)) [''vpc_id'', ''sg_id'', ''igw_id''])"
| "vpc_shape _ = False"

fun subnet_shape :: "json \<Rightarrow> bool" where
  "subnet_shape (JObject kv) =
     (vpc_shape (JObject kv) \<and>
      list_all (\<lambda>k. is_str (map_of kv k)) [''subnet_name'', ''az_postfix'', ''rt_name''] \<and>
      is_cidr_substitute (map_of kv ''cidr_substitute'') \<and>
      list_all (\<lambda>k. is_id (map_of kv k))
        [''subnet_id'', ''rt_id'', ''subnet_rt_association_id''])"
| "subnet_shape _ = False"

text \<open>
  The option \<^verbatim>\<open>cidr_substitute\<close> reaches the constructor as a string
  (\<^verbatim>\<open>cidr_substitute: str\<close> in \<^verbatim>\<open>configure_subnet\<close>): the constructor reads it as a
  decimal integer and rejects what is not one or lies outside 5..254.
\<close>

definition digit :: "char \<Rightarrow> nat option" where
  "digit c =
     (let n = (of_char c :: nat) in if 48 \<le> n \<and> n \<le> 57 then Some (n - 48) else None)"

fun digits_value :: "string \<Rightarrow> nat \<Rightarrow> nat option" where
  "digits_value [] acc = Some acc"
| "digits_value (c # cs) acc =
     (case digit c of None \<Rightarrow> None | Some d \<Rightarrow> digits_value cs (10 * acc + d))"

definition parse_int :: "string \<Rightarrow> int option" where
  "parse_int s = (if s = [] then None else map_option int (digits_value s 0))"

definition SubnetConfig_init ::
  "config \<Rightarrow> string \<Rightarrow> string \<Rightarrow> string \<Rightarrow> string \<Rightarrow> error + subnet_config" where
  "SubnetConfig_init vpc_config' subnet_name' cidr_substitute' az_postfix' rt_name' =
     (case vpc_fields_of vpc_config' of
        Inl e \<Rightarrow> Inl e
      | Inr v \<Rightarrow>
          (case parse_int cidr_substitute' of
             None \<Rightarrow> Inl ValueError
           | Some n \<Rightarrow>
               if cidr_substitute_ok n
               then Inr \<lparr>vpc_fields = v, subnet_name = subnet_name', cidr_substitute = n,
                         az_postfix = az_postfix', rt_name = rt_name', subnet_id = None,
                         rt_id = None, subnet_rt_association_id = None\<rparr>
               else Inl ValueError))"

subsection \<open>The cloud client and the local directory\<close>

text \<open>
  The functions of \<^verbatim>\<open>commands\<close> call the cloud provider. A call is recorded with the
  record it is given; \<^verbatim>\<open>create_route_table\<close> also takes \<^verbatim>\<open>is_public\<close>. The create
  calls are given records the command has just built, the delete calls whatever
  \<^verbatim>\<open>_load_config\<close> returned.
\<close>

datatype remote_call =
    create_vpc vpc_config
  | create_vpc_security_group vpc_config
  | create_internet_gateway vpc_config
  | delete_internet_gateway config
  | delete_security_group config
  | delete_vpc config
  | create_subnet subnet_config
  | create_route_table subnet_config bool
  | create_subnet_route_table_association subnet_config
  | delete_subnet_route_table_association config
  | delete_route_table config
  | delete_subnet config

text \<open>
  The environment of a command is a parameter of the model: \<open>boto3_Session\<close> says
  whether \<^verbatim>\<open>boto3.Session(profile_name, region_name)\<close> and \<^verbatim>\<open>session.client("ec2")\<close>
  raise; \<open>commands\<close> gives the outcome of a remote call, an identifier or an error,
  from the calls issued before it and the call itself. The functions of \<^verbatim>\<open>commands\<close>
  are taken to return without changing the record they are given or the local
  directory.
\<close>

record env =
  boto3_Session :: "string \<Rightarrow> string \<Rightarrow> error option"
  commands :: "remote_call list \<Rightarrow> remote_call \<Rightarrow> error + string"

text \<open>
  The state a command runs in: the files of \<^verbatim>\<open>local_dir\<close>, by file name
  (\<^verbatim>\<open>local_dir.joinpath(name)\<close>; the directory is created when the module is loaded),
  and the remote calls issued so far, oldest first. Log output is left out.
\<close>

record world =
  files :: "string \<rightharpoonup> file_content"
  trace :: "remote_call list"

text \<open>A remote call is issued, and recorded, whether it succeeds or raises.\<close>

definition call :: "env \<Rightarrow> remote_call \<Rightarrow> world \<Rightarrow> (error + string) \<times> world" where
  "call e c w = (commands e (trace w) c, w\<lparr>trace := trace w @ [c]\<rparr>)"

text \<open>\<^verbatim>\<open>json.load\<close> of an open file.\<close>

fun json_load :: "file_content \<Rightarrow> error + json" where
  "json_load NotJson = Inl MalformedConfigError"
| "json_load (Document j) = Inr j"

text \<open>\<^verbatim>\<open>with open(path, "w") as file: json.dump(d, file)\<close>.\<close>

definition json_dump_file :: "string \<Rightarrow> (string \<times> json) list \<Rightarrow> world \<Rightarrow> world" where
  "json_dump_file name d w = w\<lparr>files := (files w)(name \<mapsto> Document (JObject d))\<rparr>"

text \<open>\<^verbatim>\<open>os.remove(path)\<close>.\<close>

definition os_remove :: "string \<Rightarrow> world \<Rightarrow> (error + unit) \<times> world" where
  "os_remove name w =
     (case files w name of
        None \<Rightarrow> (Inl NotFoundError, w)
      | Some c \<Rightarrow> (Inr (), w\<lparr>files := (files w)(name := None)\<rparr>))"

text \<open>
  \<^verbatim>\<open>
  def _load_config(config_file_name: str):
      config_path = local_dir.joinpath(config_file_name)
      with open(config_path, "r") as file:
          config = json.load(file)
          if config_file_name.startswith("vpc"):
              return VpcConfig.from_config(config)
          elif config_file_name.startswith("subnet"):
              return SubnetConfig.from_config(config)
  \<close>
  With neither prefix the function falls off its end and returns \<^verbatim>\<open>None\<close>.
\<close>

definition load_config :: "string \<Rightarrow> world \<Rightarrow> error + config" where
  "load_config config_file_name w =
     (case files w config_file_name of
        None \<Rightarrow> Inl NotFoundError
      | Some file \<Rightarrow>
          (case json_load file of
             Inl e \<Rightarrow> Inl e
           | Inr config \<Rightarrow>
               if startswith config_file_name ''vpc''
               then (case VpcConfig_from_config config of
                       Inl e \<Rightarrow> Inl e | Inr v \<Rightarrow> Inr (Vpc v))
               else if startswith config_file_name ''subnet''
               then (case SubnetConfig_from_config config of
                       Inl e \<Rightarrow> Inl e | Inr s \<Rightarrow> Inr (Subnet s))
               else Inr PyNone))"

subsection \<open>The commands\<close>

text \<open>
  \<^verbatim>\<open>configure-vpc\<close>: build the record, open the session, create the VPC, the
  security group and the internet gateway, assigning each returned identifier to the
  record before the next call, then write the record.
\<close>

definition configure_vpc ::
  "env \<Rightarrow> string \<Rightarrow> string \<Rightarrow> string \<Rightarrow> string \<Rightarrow> string \<Rightarrow> string \<Rightarrow> world
     \<Rightarrow> (error + unit) \<times> world" where
  "configure_vpc e profile_name region' vpc_cidr' vpc_name' sg_name' igw_name' w =
     (let vpc_config = VpcConfig_init region' vpc_cidr' vpc_name' sg_name' igw_name' in
      case boto3_Session e profile_name (region vpc_config) of
        Some err \<Rightarrow> (Inl err, w)
      | None \<Rightarrow>
     (case call e (create_vpc vpc_config) w of
        (Inl err, w1) \<Rightarrow> (Inl err, w1)
      | (Inr vpc_id', w1) \<Rightarrow>
     (let vpc_config = vpc_config\<lparr>vpc_id := Some vpc_id'\<rparr> in
      case call e (create_vpc_security_group vpc_config) w1 of
        (Inl err, w2) \<Rightarrow> (Inl err, w2)
      | (Inr sg_id', w2) \<Rightarrow>
     (let vpc_config = vpc_config\<lparr>sg_id := Some sg_id'\<rparr> in
      case call e (create_internet_gateway vpc_config) w2 of
        (Inl err, w3) \<Rightarrow> (Inl err, w3)
      | (Inr igw_id', w3) \<Rightarrow>
     (let vpc_config = vpc_config\<lparr>igw_id := Some igw_id'\<rparr>;
          vpc_config_file_name = parse_config_file_name vpc_name' ''vpc''
      in (Inr (), json_dump_file vpc_config_file_name (VpcConfig_dict vpc_config) w3))))))"

text \<open>
  \<^verbatim>\<open>remove-vpc\<close>: load the record, open the session, delete the internet gateway,
  the security group and the VPC, then remove the file.
\<close>

definition remove_vpc :: "env \<Rightarrow> string \<Rightarrow> string \<Rightarrow> world \<Rightarrow> (error + unit) \<times> world" where
  "remove_vpc e profile_name vpc_name' w =
     (let vpc_config_file_name = parse_config_file_name vpc_name' ''vpc'' in
      case load_config vpc_config_file_name w of
        Inl err \<Rightarrow> (Inl err, w)
      | Inr vpc_config \<Rightarrow>
     (case region_of vpc_config of
        Inl err \<Rightarrow> (Inl err, w)
      | Inr r \<Rightarrow>
     (case boto3_Session e profile_name r of
        Some err \<Rightarrow> (Inl err, w)
      | None \<Rightarrow>
     (case call e (delete_internet_gateway vpc_config) w of
        (Inl err, w1) \<Rightarrow> (Inl err, w1)
      | (Inr _, w1) \<Rightarrow>
     (case call e (delete_security_group vpc_config) w1 of
        (Inl err, w2) \<Rightarrow> (Inl err, w2)
      | (Inr _, w2) \<Rightarrow>
     (case call e (delete_vpc vpc_config) w2 of
        (Inl err, w3) \<Rightarrow> (Inl err, w3)
      | (Inr _, w3) \<Rightarrow> os_remove vpc_config_file_name w3))))))"

text \<open>
  \<^verbatim>\<open>configure-subnet\<close>: load the VPC record, open the session, build the subnet
  record, create the subnet, the route table and their association, assigning each
  returned identifier before the next call, then write the record.
\<close>

definition configure_subnet ::
  "env \<Rightarrow> string \<Rightarrow> string \<Rightarrow> string \<Rightarrow> string \<Rightarrow> string \<Rightarrow> string \<Rightarrow> bool \<Rightarrow> world
     \<Rightarrow> (error + unit) \<times> world" where
  "configure_subnet e profile_name vpc_name' subnet_name' cidr_substitute'
       availability_zone_postfix route_table_name is_public w =
     (let vpc_config_file_name = parse_config_file_name vpc_name' ''vpc'' in
      case load_config vpc_config_file_name w of
        Inl err \<Rightarrow> (Inl err, w)
      | Inr vpc_config \<Rightarrow>
     (case region_of vpc_config of
        Inl err \<Rightarrow> (Inl err, w)
      | Inr r \<Rightarrow>
     (case boto3_Session e profile_name r of
        Some err \<Rightarrow> (Inl err, w)
      | None \<Rightarrow>
     (case SubnetConfig_init vpc_config subnet_name' cidr_substitute'
             availability_zone_postfix route_table_name of
        Inl err \<Rightarrow> (Inl err, w)
      | Inr subnet_config \<Rightarrow>
     (case call e (create_subnet subnet_config) w of
        (Inl err, w1) \<Rightarrow> (Inl err, w1)
      | (Inr subnet_id', w1) \<Rightarrow>
     (let subnet_config = subnet_config\<lparr>subnet_id := Some subnet_id'\<rparr> in
      case call e (create_route_table subnet_config is_public) w1 of
        (Inl err, w2) \<Rightarrow> (Inl err, w2)
      | (Inr rt_id', w2) \<Rightarrow>
     (let subnet_config = subnet_config\<lparr>rt_id := Some rt_id'\<rparr> in
      case call e (create_subnet_route_table_association subnet_config) w2 of
        (Inl err, w3) \<Rightarrow> (Inl err, w3)
      | (Inr association_id, w3) \<Rightarrow>
     (let subnet_config = subnet_config\<lparr>subnet_rt_association_id := Some association_id\<rparr>;
          subnet_config_file_name = parse_config_file_name subnet_name' ''subnet''
      in (Inr (),
          json_dump_file subnet_config_file_name (SubnetConfig_dict subnet_config) w3)))))))))"

text \<open>
  \<^verbatim>\<open>remove-subnet\<close>: load the record, open the session, delete the association,
  the route table and the subnet, then remove the file.
\<close>

definition remove_subnet :: "env \<Rightarrow> string \<Rightarrow> string \<Rightarrow> world \<Rightarrow> (error + unit) \<times> world" where
  "remove_subnet e profile_name subnet_name' w =
     (let subnet_config_file_name = parse_config_file_name subnet_name' ''subnet'' in
      case load_config subnet_config_file_name w of
        Inl err \<Rightarrow> (Inl err, w)
      | Inr subnet_config \<Rightarrow>
     (case region_of subnet_config of
        Inl err \<Rightarrow> (Inl err, w)
      | Inr r \<Rightarrow>
     (case boto3_Session e profile_name r of
        Some err \<Rightarrow> (Inl err, w)
      | None \<Rightarrow>
     (case call e (delete_subnet_route_table_association subnet_config) w of
        (Inl err, w1) \<Rightarrow> (Inl err, w1)
      | (Inr _, w1) \<Rightarrow>
     (case call e (delete_route_table subnet_config) w1 of
        (Inl err, w2) \<Rightarrow> (Inl err, w2)
      | (Inr _, w2) \<Rightarrow>
     (case call e (delete_subnet subnet_config) w2 of
        (Inl err, w3) \<Rightarrow> (Inl err, w3)
      | (Inr _, w3) \<Rightarrow> os_remove subnet_config_file_name w3))))))"

subsection \<open>Resources and the order of calls\<close>




text \<open>The calls a command has issued: what it appended to the trace.\<close>

definition issued :: "world \<Rightarrow> world \<Rightarrow> remote_call list" where
  "issued w w' = drop (length (trace w)) (trace w')"

text \<open>
  The outcome of each call of a list issued from the trace \<open>tr\<close>: what the cloud
  client answered to it, given the calls before it.
\<close>

fun outcomes :: "env \<Rightarrow> remote_call list \<Rightarrow> remote_call list \<Rightarrow> (error + string) list" where
  "outcomes e tr [] = []"
| "outcomes e tr (c # cs) = commands e tr c # outcomes e (tr @ [c]) cs"

subsection \<open>A worked example\<close>

text \<open>
  A cloud client whose calls all succeed, one whose call number \<open>k\<close> (counted from 0
  over the calls issued so far) is refused, an empty directory, and the records and
  the directory that \<^verbatim>\<open>configure-vpc\<close> and \<^verbatim>\<open>configure-subnet\<close> leave behind.
\<close>

fun example_id :: "remote_call \<Rightarrow> string" where
  "example_id (create_vpc _) = ''vpc-1''"
| "example_id (create_vpc_security_group _) = ''sg-1''"
| "example_id (create_internet_gateway _) = ''igw-1''"
| "example_id (create_subnet _) = ''subnet-1''"
| "example_id (create_route_table _ _) = ''rtb-1''"
| "example_id (create_subnet_route_table_association _) = ''rtbassoc-1''"
| "example_id _ = []"

definition env_ok :: env where
  "env_ok = \<lparr>boto3_Session = (\<lambda>p r. None), commands = (\<lambda>tr c. Inr (example_id c))\<rparr>"

definition env_fail_at :: "nat \<Rightarrow> env" where
  "env_fail_at k =
     \<lparr>boto3_Session = (\<lambda>p r. None),
      commands = (\<lambda>tr c. if length tr = k then Inl (RemoteAPIError ''denied'')
                          else Inr (example_id c))\<rparr>"

definition w_empty :: world where
  "w_empty = \<lparr>files = Map.empty, trace = []\<rparr>"

definition vpc_demo :: vpc_config where
  "vpc_demo =
     \<lparr>region = ''eu-west-1'', vpc_cidr = ''10.0.0.0/16'', vpc_name = ''demo'',
      sg_name = ''demo-sg'', igw_name = ''demo-igw'', vpc_id = Some ''vpc-1'',
      sg_id = Some ''sg-1'', igw_id = Some ''igw-1''\<rparr>"

definition subnet_demo :: subnet_config where
  "subnet_demo =
     \<lparr>vpc_fields = vpc_demo, subnet_name = ''web'', cidr_substitute = 7, az_postfix = ''a'',
      rt_name = ''web-rt'', subnet_id = Some ''subnet-1'', rt_id = Some ''rtb-1'',
      subnet_rt_association_id = Some ''rtbassoc-1''\<rparr>"

definition files_demo :: "string \<rightharpoonup> file_content" where
  "files_demo =
     [''vpc_demo_config.json'' \<mapsto> Document (JObject (VpcConfig_dict vpc_demo)),
      ''subnet_web_config.json'' \<mapsto> Document (JObject (SubnetConfig_dict subnet_demo))]"

definition w_demo :: world where
  "w_demo = \<lparr>files = files_demo, trace = []\<rparr>"

text \<open>
  A directory with a file that is not JSON, a VPC file and a subnet file whose
  documents are no records, and a file whose name has neither prefix.
\<close>

definition files_broken :: "string \<rightharpoonup> file_content" where
  "files_broken =
     [''vpc_demo_config.json'' \<mapsto> NotJson,
      ''vpc_old_config.json'' \<mapsto> Document (JObject [(''region'', JInt 3)]),
      ''subnet_web_config.json'' \<mapsto> Document (JArray []),
      ''notes.json'' \<mapsto> Document JNull]"

definition w_broken :: world where
  "w_broken = \<lparr>files = files_broken, trace = []\<rparr>"

section \<open>Properties\<close>

subsection \<open>The naming function\<close>

lemma lower_vpc: "lower ''vpc'' = ''vpc''"
  by (simp add: lower_def lower_char_def)

lemma lower_subnet: "lower ''subnet'' = ''subnet''"
  by (simp add: lower_def lower_char_def)

lemma file_name_vpc:
  "parse_config_file_name n ''vpc'' = ''vpc_'' @ replace_hyphen n @ ''_config.json''"
  by (simp add: parse_config_file_name_def lower_vpc)

lemma file_name_subnet:
  "parse_config_file_name n ''subnet'' = ''subnet_'' @ replace_hyphen n @ ''_config.json''"
  by (simp add: parse_config_file_name_def lower_subnet)



subsection \<open>Reading back what was written\<close>

lemma json_of_id_read [simp]:
  "(case json_of_id i of JNull \<Rightarrow> Some None | JString x \<Rightarrow> Some (Some x) | _ \<Rightarrow> None) = Some i"
  by (cases i) simp_all

lemma vpc_of_dict_append: "vpc_of_dict (VpcConfig_dict v @ rest) = Some v"
  by (simp add: vpc_of_dict_def VpcConfig_dict_def)

lemma vpc_of_dict_dict: "vpc_of_dict (VpcConfig_dict v) = Some v"
  using vpc_of_dict_append [of v "[]"] by simp

lemma subnet_of_dict_dict:
  "subnet_of_dict (SubnetConfig_dict s) =
     (if cidr_substitute_ok (cidr_substitute s) then Some s else None)"
  by (simp add: subnet_of_dict_def SubnetConfig_dict_def vpc_of_dict_append)
     (simp add: VpcConfig_dict_def)

lemma files_json_dump_file [simp]:
  "files (json_dump_file name d w) = (files w)(name \<mapsto> Document (JObject d))"
  by (simp add: json_dump_file_def)

lemma trace_json_dump_file [simp]: "trace (json_dump_file name d w) = trace w"
  by (simp add: json_dump_file_def)

subsection \<open>The loader\<close>

lemma load_config_not_json:
  "files w name = Some NotJson \<Longrightarrow> load_config name w = Inl MalformedConfigError"
  by (simp add: load_config_def)



text \<open>A file name with neither prefix: the document is parsed and \<^verbatim>\<open>None\<close> returned.\<close>

lemma load_config_other:
  "files w name = Some (Document j) \<Longrightarrow> \<not> startswith name ''vpc'' \<Longrightarrow>
   \<not> startswith name ''subnet'' \<Longrightarrow> load_config name w = Inr PyNone"
  by (simp add: load_config_def)

lemma load_config_missing: "files w name = None \<Longrightarrow> load_config name w = Inl NotFoundError"
  by (simp add: load_config_def)

lemma load_config_Inr_files: "load_config name w = Inr c \<Longrightarrow> files w name \<noteq> None"
  by (auto simp: load_config_def split: option.splits)

lemma issued_append [simp]: "issued w (w\<lparr>trace := trace w @ cs\<rparr>) = cs"
  by (simp add: issued_def)

lemma issued_append_files [simp]: "issued w (w\<lparr>trace := trace w @ cs, files := f\<rparr>) = cs"
  by (simp add: issued_def)

lemma issued_same [simp]: "issued w w = []"
  by (simp add: issued_def)

subsection \<open>The shape of a document\<close>

lemma get_str_None: "get_str kv k = None \<longleftrightarrow> \<not> is_str (map_of kv k)"
  by (auto split: option.splits json.splits)

lemma get_id_None: "get_id kv k = None \<longleftrightarrow> \<not> is_id (map_of kv k)"
  by (auto split: option.splits json.splits)

lemma get_int_cidr:
  "(get_int kv k = None \<or> \<not> cidr_substitute_ok (the (get_int kv k)))
     \<longleftrightarrow> \<not> is_cidr_substitute (map_of kv k)"
  by (auto split: option.splits json.splits)

lemma vpc_of_dict_None: "vpc_of_dict kv = None \<longleftrightarrow> \<not> vpc_shape (JObject kv)"
  by (simp add: vpc_of_dict_def bind_eq_None_conv get_str_None get_id_None
      del: get_str.simps get_id.simps)

lemma subnet_of_dict_None: "subnet_of_dict kv = None \<longleftrightarrow> \<not> subnet_shape (JObject kv)"
  using get_int_cidr [of kv "''cidr_substitute''"]
  by (simp add: subnet_of_dict_def bind_eq_None_conv get_str_None get_id_None vpc_of_dict_None
      del: get_str.simps get_id.simps get_int.simps vpc_shape.simps) blast

lemma VpcConfig_from_config_error:
  "VpcConfig_from_config j = Inl err \<longleftrightarrow> err = MalformedConfigError \<and> \<not> vpc_shape j"
proof (cases j)
  case (JObject kv)
  then show ?thesis
    using vpc_of_dict_None [of kv]
    by (cases "vpc_of_dict kv")
       (auto simp: VpcConfig_from_config_def simp del: vpc_shape.simps)
qed (auto simp: VpcConfig_from_config_def)

lemma SubnetConfig_from_config_error:
  "SubnetConfig_from_config j = Inl err \<longleftrightarrow> err = MalformedConfigError \<and> \<not> subnet_shape j"
proof (cases j)
  case (JObject kv)
  then show ?thesis
    using subnet_of_dict_None [of kv]
    by (cases "subnet_of_dict kv")
       (auto simp: SubnetConfig_from_config_def simp del: subnet_shape.simps)
qed (auto simp: SubnetConfig_from_config_def)

subsection \<open>The runs of the commands\<close>

text \<open>
  Each command, once its record is loaded and its session open, is a chain of three
  remote calls; the lemmas give its result for every outcome of the calls.
\<close>

lemma remove_vpc_run:
  assumes "load_config (parse_config_file_name n ''vpc'') w = Inr c"
    and "region_of c = Inr rg" and "boto3_Session e p rg = None"
  shows "remove_vpc e p n w =
     (case commands e (trace w) (delete_internet_gateway c) of
        Inl err \<Rightarrow> (Inl err, w\<lparr>trace := trace w @ [delete_internet_gateway c]\<rparr>)
      | Inr x \<Rightarrow>
     (case commands e (trace w @ [delete_internet_gateway c]) (delete_security_group c) of
        Inl err \<Rightarrow>
          (Inl err, w\<lparr>trace := trace w @ [delete_internet_gateway c, delete_security_group c]\<rparr>)
      | Inr y \<Rightarrow>
     (case commands e (trace w @ [delete_internet_gateway c, delete_security_group c])
             (delete_vpc c) of
        Inl err \<Rightarrow>
          (Inl err, w\<lparr>trace := trace w @
             [delete_internet_gateway c, delete_security_group c, delete_vpc c]\<rparr>)
      | Inr z \<Rightarrow>
          (Inr (), w\<lparr>trace := trace w @
             [delete_internet_gateway c, delete_security_group c, delete_vpc c],
             files := (files w)(parse_config_file_name n ''vpc'' := None)\<rparr>))))"
  using assms load_config_Inr_files [OF assms(1)]
  by (auto simp: remove_vpc_def call_def os_remove_def split: sum.splits option.splits)

lemma remove_subnet_run:
  assumes "load_config (parse_config_file_name n ''subnet'') w = Inr c"
    and "region_of c = Inr rg" and "boto3_Session e p rg = None"
  shows "remove_subnet e p n w =
     (case commands e (trace w) (delete_subnet_route_table_association c) of
        Inl err \<Rightarrow> (Inl err, w\<lparr>trace := trace w @ [delete_subnet_route_table_association c]\<rparr>)
      | Inr x \<Rightarrow>
     (case commands e (trace w @ [delete_subnet_route_table_association c])
             (delete_route_table c) of
        Inl err \<Rightarrow>
          (Inl err, w\<lparr>trace := trace w @
             [delete_subnet_route_table_association c, delete_route_table c]\<rparr>)
      | Inr y \<Rightarrow>
     (case commands e (trace w @ [delete_subnet_route_table_association c, delete_route_table c])
             (delete_subnet c) of
        Inl err \<Rightarrow>
          (Inl err, w\<lparr>trace := trace w @
             [delete_subnet_route_table_association c, delete_route_table c, delete_subnet c]\<rparr>)
      | Inr z \<Rightarrow>
          (Inr (), w\<lparr>trace := trace w @
             [delete_subnet_route_table_association c, delete_route_table c, delete_subnet c],
             files := (files w)(parse_config_file_name n ''subnet'' := None)\<rparr>))))"
  using assms load_config_Inr_files [OF assms(1)]
  by (auto simp: remove_subnet_def call_def os_remove_def split: sum.splits option.splits)

lemma remove_vpc_no_run:
  "load_config (parse_config_file_name n ''vpc'') w = Inl err \<Longrightarrow>
   remove_vpc e p n w = (Inl err, w)"
  "load_config (parse_config_file_name n ''vpc'') w = Inr c \<Longrightarrow> region_of c = Inl err \<Longrightarrow>
   remove_vpc e p n w = (Inl err, w)"
  "load_config (parse_config_file_name n ''vpc'') w = Inr c \<Longrightarrow> region_of c = Inr rg \<Longrightarrow>
   boto3_Session e p rg = Some err \<Longrightarrow> remove_vpc e p n w = (Inl err, w)"
  by (simp_all add: remove_vpc_def)

lemma remove_subnet_no_run:
  "load_config (parse_config_file_name n ''subnet'') w = Inl err \<Longrightarrow>
   remove_subnet e p n w = (Inl err, w)"
  "load_config (parse_config_file_name n ''subnet'') w = Inr c \<Longrightarrow> region_of c = Inl err \<Longrightarrow>
   remove_subnet e p n w = (Inl err, w)"
  "load_config (parse_config_file_name n ''subnet'') w = Inr c \<Longrightarrow> region_of c = Inr rg \<Longrightarrow>
   boto3_Session e p rg = Some err \<Longrightarrow> remove_subnet e p n w = (Inl err, w)"
  by (simp_all add: remove_subnet_def)

lemma configure_vpc_run:
  assumes "boto3_Session e p rg = None"
  shows "configure_vpc e p rg cidr n sg igw w =
     (let v0 = VpcConfig_init rg cidr n sg igw in
      case commands e (trace w) (create_vpc v0) of
        Inl err \<Rightarrow> (Inl err, w\<lparr>trace := trace w @ [create_vpc v0]\<rparr>)
      | Inr i1 \<Rightarrow>
     (let v1 = v0\<lparr>vpc_id := Some i1\<rparr> in
      case commands e (trace w @ [create_vpc v0]) (create_vpc_security_group v1) of
        Inl err \<Rightarrow>
          (Inl err, w\<lparr>trace := trace w @ [create_vpc v0, create_vpc_security_group v1]\<rparr>)
      | Inr i2 \<Rightarrow>
     (let v2 = v1\<lparr>sg_id := Some i2\<rparr> in
      case commands e (trace w @ [create_vpc v0, create_vpc_security_group v1])
             (create_internet_gateway v2) of
        Inl err \<Rightarrow>
          (Inl err, w\<lparr>trace := trace w @
             [create_vpc v0, create_vpc_security_group v1, create_internet_gateway v2]\<rparr>)
      | Inr i3 \<Rightarrow>
          (Inr (), w\<lparr>trace := trace w @
             [create_vpc v0, create_vpc_security_group v1, create_internet_gateway v2],
             files := (files w)(parse_config_file_name n ''vpc'' \<mapsto>
               Document (JObject (VpcConfig_dict (v2\<lparr>igw_id := Some i3\<rparr>))))\<rparr>))))"
  using assms
  by (auto simp: configure_vpc_def call_def json_dump_file_def Let_def VpcConfig_init_def
      split: sum.splits option.splits)

lemma configure_vpc_no_run:
  "boto3_Session e p rg = Some err \<Longrightarrow> configure_vpc e p rg cidr n sg igw w = (Inl err, w)"
  by (simp add: configure_vpc_def VpcConfig_init_def)

lemma configure_subnet_run:
  assumes "load_config (parse_config_file_name n ''vpc'') w = Inr c"
    and "region_of c = Inr rg" and "boto3_Session e p rg = None"
    and "SubnetConfig_init c sn cs az rt = Inr s0"
  shows "configure_subnet e p n sn cs az rt pub w =
     (case commands e (trace w) (create_subnet s0) of
        Inl err \<Rightarrow> (Inl err, w\<lparr>trace := trace w @ [create_subnet s0]\<rparr>)
      | Inr i1 \<Rightarrow>
     (let s1 = s0\<lparr>subnet_id := Some i1\<rparr> in
      case commands e (trace w @ [create_subnet s0]) (create_route_table s1 pub) of
        Inl err \<Rightarrow>
          (Inl err, w\<lparr>trace := trace w @ [create_subnet s0, create_route_table s1 pub]\<rparr>)
      | Inr i2 \<Rightarrow>
     (let s2 = s1\<lparr>rt_id := Some i2\<rparr> in
      case commands e (trace w @ [create_subnet s0, create_route_table s1 pub])
             (create_subnet_route_table_association s2) of
        Inl err \<Rightarrow>
          (Inl err, w\<lparr>trace := trace w @
             [create_subnet s0, create_route_table s1 pub,
              create_subnet_route_table_association s2]\<rparr>)
      | Inr i3 \<Rightarrow>
          (Inr (), w\<lparr>trace := trace w @
             [create_subnet s0, create_route_table s1 pub,
              create_subnet_route_table_association s2],
             files := (files w)(parse_config_file_name sn ''subnet'' \<mapsto>
               Document (JObject (SubnetConfig_dict
                 (s2\<lparr>subnet_rt_association_id := Some i3\<rparr>))))\<rparr>))))"
  using assms
  by (auto simp: configure_subnet_def call_def json_dump_file_def Let_def
      split: sum.splits option.splits)

lemma configure_subnet_no_run:
  "load_config (parse_config_file_name n ''vpc'') w = Inl err \<Longrightarrow>
   configure_subnet e p n sn cs az rt pub w = (Inl err, w)"
  "load_config (parse_config_file_name n ''vpc'') w = Inr c \<Longrightarrow> region_of c = Inl err \<Longrightarrow>
   configure_subnet e p n sn cs az rt pub w = (Inl err, w)"
  "load_config (parse_config_file_name n ''vpc'') w = Inr c \<Longrightarrow> region_of c = Inr rg \<Longrightarrow>
   boto3_Session e p rg = Some err \<Longrightarrow> configure_subnet e p n sn cs az rt pub w = (Inl err, w)"
  "load_config (parse_config_file_name n ''vpc'') w = Inr c \<Longrightarrow> region_of c = Inr rg \<Longrightarrow>
   boto3_Session e p rg = None \<Longrightarrow> SubnetConfig_init c sn cs az rt = Inl err \<Longrightarrow>
   configure_subnet e p n sn cs az rt pub w = (Inl err, w)"
  by (simp_all add: configure_subnet_def)

subsection \<open>Every run of a command\<close>

text \<open>
  A command either aborts before its first remote call, leaving the state as it was, or
  runs its chain of calls. For every run: the resources of the calls issued, in order;
  what a successful run has done; what a failed run has left.
\<close>

lemma remove_vpc_cases [consumes 1, case_names abort run]:
  assumes "remove_vpc e p n w = (r, w')"
  obtains (abort) err where "r = Inl err" and "w' = w"
  | (run) c rg where "load_config (parse_config_file_name n ''vpc'') w = Inr c"
      and "region_of c = Inr rg" and "boto3_Session e p rg = None"
proof (cases "load_config (parse_config_file_name n ''vpc'') w")
  case (Inl err)
  with assms abort show ?thesis by (auto simp: remove_vpc_no_run(1))
next
  case c: (Inr c)
  show ?thesis
  proof (cases "region_of c")
    case (Inl err)
    with assms c abort show ?thesis by (auto simp: remove_vpc_no_run(2))
  next
    case rg: (Inr rg)
    show ?thesis
    proof (cases "boto3_Session e p rg")
      case None
      with c rg run show ?thesis by blast
    next
      case (Some err)
      with assms c rg abort show ?thesis by (auto simp: remove_vpc_no_run(3))
    qed
  qed
qed


lemma remove_vpc_success:
  assumes "remove_vpc e p n w = (Inr (), w')"
  shows "\<exists>c. load_config (parse_config_file_name n ''vpc'') w = Inr c
     \<and> issued w w' = [delete_internet_gateway c, delete_security_group c, delete_vpc c]
     \<and> list_all (\<lambda>x. \<not> isl x) (outcomes e (trace w) (issued w w'))
     \<and> files w' = (files w)(parse_config_file_name n ''vpc'' := None)"
  using assms
proof (cases rule: remove_vpc_cases)
  case (abort err)
  then show ?thesis by simp
next
  case (run c rg)
  from assms show ?thesis
    unfolding remove_vpc_run [OF run] using run(1) by (auto split: sum.splits)
qed

lemma remove_vpc_failure:
  assumes "remove_vpc e p n w = (Inl err, w')"
  shows "files w' = files w
     \<and> (issued w w' \<noteq> [] \<longrightarrow>
          last (outcomes e (trace w) (issued w w')) = Inl err
          \<and> list_all (\<lambda>x. \<not> isl x) (butlast (outcomes e (trace w) (issued w w'))))"
  using assms
proof (cases rule: remove_vpc_cases)
  case (abort err)
  then show ?thesis by simp
next
  case (run c rg)
  from assms show ?thesis
    unfolding remove_vpc_run [OF run] by (auto split: sum.splits)
qed

lemma remove_subnet_cases [consumes 1, case_names abort run]:
  assumes "remove_subnet e p n w = (r, w')"
  obtains (abort) err where "r = Inl err" and "w' = w"
  | (run) c rg where "load_config (parse_config_file_name n ''subnet'') w = Inr c"
      and "region_of c = Inr rg" and "boto3_Session e p rg = None"
proof (cases "load_config (parse_config_file_name n ''subnet'') w")
  case (Inl err)
  with assms abort show ?thesis by (auto simp: remove_subnet_no_run(1))
next
  case c: (Inr c)
  show ?thesis
  proof (cases "region_of c")
    case (Inl err)
    with assms c abort show ?thesis by (auto simp: remove_subnet_no_run(2))
  next
    case rg: (Inr rg)
    show ?thesis
    proof (cases "boto3_Session e p rg")
      case None
      with c rg run show ?thesis by blast
    next
      case (Some err)
      with assms c rg abort show ?thesis by (auto simp: remove_subnet_no_run(3))
    qed
  qed
qed


lemma remove_subnet_success:
  assumes "remove_subnet e p n w = (Inr (), w')"
  shows "\<exists>c. load_config (parse_config_file_name n ''subnet'') w = Inr c
     \<and> issued w w' = [delete_subnet_route_table_association c, delete_route_table c, delete_subnet c]
     \<and> list_all (\<lambda>x. \<not> isl x) (outcomes e (trace w) (issued w w'))
     \<and> files w' = (files w)(parse_config_file_name n ''subnet'' := None)"
  using assms
proof (cases rule: remove_subnet_cases)
  case (abort err)
  then show ?thesis by simp
next
  case (run c rg)
  from assms show ?thesis
    unfolding remove_subnet_run [OF run] using run(1) by (auto split: sum.splits)
qed

lemma remove_subnet_failure:
  assumes "remove_subnet e p n w = (Inl err, w')"
  shows "files w' = files w
     \<and> (issued w w' \<noteq> [] \<longrightarrow>
          last (outcomes e (trace w) (issued w w')) = Inl err
          \<and> list_all (\<lambda>x. \<not> isl x) (butlast (outcomes e (trace w) (issued w w'))))"
  using assms
proof (cases rule: remove_subnet_cases)
  case (abort err)
  then show ?thesis by simp
next
  case (run c rg)
  from assms show ?thesis
    unfolding remove_subnet_run [OF run] by (auto split: sum.splits)
qed


lemma configure_vpc_cases [consumes 1, case_names abort run]:
  assumes "configure_vpc e p rg cidr n sg igw w = (r, w')"
  obtains (abort) err where "r = Inl err" and "w' = w"
  | (run) "boto3_Session e p rg = None"
proof (cases "boto3_Session e p rg")
  case None
  with run show ?thesis by blast
next
  case (Some err)
  with assms abort show ?thesis by (auto simp: configure_vpc_no_run)
qed


lemma configure_vpc_success:
  assumes "configure_vpc e p rg cidr n sg igw w = (Inr (), w')"
  shows "\<exists>i1 i2 i3.
       issued w w' =
         [create_vpc (VpcConfig_init rg cidr n sg igw),
          create_vpc_security_group (VpcConfig_init rg cidr n sg igw\<lparr>vpc_id := Some i1\<rparr>),
          create_internet_gateway
            (VpcConfig_init rg cidr n sg igw\<lparr>vpc_id := Some i1, sg_id := Some i2\<rparr>)]
     \<and> outcomes e (trace w) (issued w w') = [Inr i1, Inr i2, Inr i3]
     \<and> files w' = (files w)(parse_config_file_name n ''vpc'' \<mapsto>
         Document (JObject (VpcConfig_dict
           (VpcConfig_init rg cidr n sg igw
              \<lparr>vpc_id := Some i1, sg_id := Some i2, igw_id := Some i3\<rparr>))))"
  using assms
proof (cases rule: configure_vpc_cases)
  case (abort err)
  then show ?thesis by simp
next
  case run
  from assms show ?thesis
    unfolding configure_vpc_run [OF run] by (auto simp: Let_def split: sum.splits)
qed

lemma configure_vpc_failure:
  assumes "configure_vpc e p rg cidr n sg igw w = (Inl err, w')"
  shows "files w' = files w
     \<and> (issued w w' \<noteq> [] \<longrightarrow>
          last (outcomes e (trace w) (issued w w')) = Inl err
          \<and> list_all (\<lambda>x. \<not> isl x) (butlast (outcomes e (trace w) (issued w w'))))"
  using assms
proof (cases rule: configure_vpc_cases)
  case (abort err)
  then show ?thesis by simp
next
  case run
  from assms show ?thesis
    unfolding configure_vpc_run [OF run] by (auto simp: Let_def split: sum.splits)
qed

lemma configure_subnet_cases [consumes 1, case_names abort run]:
  assumes "configure_subnet e p n sn cs az rt pub w = (r, w')"
  obtains (abort) err where "r = Inl err" and "w' = w"
  | (run) c rg s0 where "load_config (parse_config_file_name n ''vpc'') w = Inr c"
      and "region_of c = Inr rg" and "boto3_Session e p rg = None"
      and "SubnetConfig_init c sn cs az rt = Inr s0"
proof (cases "load_config (parse_config_file_name n ''vpc'') w")
  case (Inl err)
  with assms abort show ?thesis by (auto simp: configure_subnet_no_run(1))
next
  case c: (Inr c)
  show ?thesis
  proof (cases "region_of c")
    case (Inl err)
    with assms c abort show ?thesis by (auto simp: configure_subnet_no_run(2))
  next
    case rg: (Inr rg)
    show ?thesis
    proof (cases "boto3_Session e p rg")
      case (Some err)
      with assms c rg abort show ?thesis by (auto simp: configure_subnet_no_run(3))
    next
      case None
      show ?thesis
      proof (cases "SubnetConfig_init c sn cs az rt")
        case (Inl err)
        with assms c rg None abort show ?thesis by (auto simp: configure_subnet_no_run(4))
      next
        case (Inr s0)
        with c rg None run show ?thesis by blast
      qed
    qed
  qed
qed


lemma configure_subnet_success:
  assumes "configure_subnet e p n sn cs az rt pub w = (Inr (), w')"
  shows "\<exists>c s0 i1 i2 i3.
       load_config (parse_config_file_name n ''vpc'') w = Inr c
     \<and> SubnetConfig_init c sn cs az rt = Inr s0
     \<and> issued w w' =
         [create_subnet s0,
          create_route_table (s0\<lparr>subnet_id := Some i1\<rparr>) pub,
          create_subnet_route_table_association (s0\<lparr>subnet_id := Some i1, rt_id := Some i2\<rparr>)]
     \<and> outcomes e (trace w) (issued w w') = [Inr i1, Inr i2, Inr i3]
     \<and> files w' = (files w)(parse_config_file_name sn ''subnet'' \<mapsto>
         Document (JObject (SubnetConfig_dict
           (s0\<lparr>subnet_id := Some i1, rt_id := Some i2,
               subnet_rt_association_id := Some i3\<rparr>))))"
  using assms
proof (cases rule: configure_subnet_cases)
  case (abort err)
  then show ?thesis by simp
next
  case (run c rg s0)
  from assms show ?thesis
    unfolding configure_subnet_run [OF run] using run(1,4)
    by (auto simp: Let_def split: sum.splits)
qed

lemma configure_subnet_failure:
  assumes "configure_subnet e p n sn cs az rt pub w = (Inl err, w')"
  shows "files w' = files w
     \<and> (issued w w' \<noteq> [] \<longrightarrow>
          last (outcomes e (trace w) (issued w w')) = Inl err
          \<and> list_all (\<lambda>x. \<not> isl x) (butlast (outcomes e (trace w) (issued w w'))))"
  using assms
proof (cases rule: configure_subnet_cases)
  case (abort err)
  then show ?thesis by simp
next
  case (run c rg s0)
  from assms show ?thesis
    unfolding configure_subnet_run [OF run] by (auto simp: Let_def split: sum.splits)
qed



subsection \<open>Outcomes of the calls issued\<close>

lemma failed_call_is_last:
  assumes "last outs = Inl err'" and "list_all (\<lambda>x. \<not> isl x) (butlast outs)"
    and "Inl err \<in> set outs"
  shows "err = err'"
proof (cases outs rule: rev_cases)
  case Nil
  with assms(3) show ?thesis by simp
next
  case (snoc ys y)
  with assms show ?thesis by (auto simp: list_all_iff)
qed

lemma outcomes_Nil_iff [simp]: "outcomes e tr cs = [] \<longleftrightarrow> cs = []"
  by (cases cs) simp_all

lemma prefix_distinct: "prefix xs ys \<Longrightarrow> distinct ys \<Longrightarrow> distinct xs"
  by (auto simp: prefix_def)

lemma failed_run:
  assumes fail: "\<And>err. r = Inl err \<Longrightarrow>
       files w' = files w \<and> (cs \<noteq> [] \<longrightarrow> last (outcomes e tr cs) = Inl err
         \<and> list_all (\<lambda>x. \<not> isl x) (butlast (outcomes e tr cs)))"
    and ok: "r = Inr () \<Longrightarrow> list_all (\<lambda>x. \<not> isl x) (outcomes e tr cs)"
    and bad: "Inl err \<in> set (outcomes e tr cs)"
  shows "r = Inl err \<and> last (outcomes e tr cs) = Inl err \<and> files w' = files w"
proof (cases r)
  case (Inr u)
  with ok bad show ?thesis by (auto simp: list_all_iff)
next
  case (Inl err')
  from bad have ne: "cs \<noteq> []" by auto
  from fail [OF Inl] ne have l: "last (outcomes e tr cs) = Inl err'"
    and b: "list_all (\<lambda>x. \<not> isl x) (butlast (outcomes e tr cs))"
    and f: "files w' = files w" by simp_all
  from failed_call_is_last [OF l b bad] Inl l f show ?thesis by simp
qed

subsection \<open>The worked example\<close>

lemma name_demo:
  "parse_config_file_name ''demo'' ''vpc'' = ''vpc_demo_config.json''"
  "parse_config_file_name ''web'' ''subnet'' = ''subnet_web_config.json''"
  by (simp_all add: file_name_vpc file_name_subnet replace_hyphen_def)

lemma load_demo:
  "load_config (parse_config_file_name ''demo'' ''vpc'') w_demo = Inr (Vpc vpc_demo)"
  "load_config (parse_config_file_name ''web'' ''subnet'') w_demo = Inr (Subnet subnet_demo)"
  by (simp_all add: name_demo load_config_def w_demo_def files_demo_def startswith_def
      VpcConfig_from_config_def SubnetConfig_from_config_def vpc_of_dict_dict
      subnet_of_dict_dict subnet_demo_def cidr_substitute_ok_def)

lemma region_demo:
  "region_of (Vpc vpc_demo) = Inr ''eu-west-1''"
  "region_of (Subnet subnet_demo) = Inr ''eu-west-1''"
  by (simp_all add: region_of_def vpc_demo_def subnet_demo_def)

lemma session_demo:
  "boto3_Session env_ok p rg = None" "boto3_Session (env_fail_at k) p rg = None"
  by (simp_all add: env_ok_def env_fail_at_def)

lemma parse_int_demo: "parse_int ''7'' = Some 7" "parse_int ''300'' = Some 300"
  "parse_int ''abc'' = None"
  by (simp_all add: parse_int_def digit_def)

lemma init_demo:
  "SubnetConfig_init (Vpc vpc_demo) ''web'' ''7'' ''a'' ''web-rt''
     = Inr (subnet_demo\<lparr>subnet_id := None, rt_id := None, subnet_rt_association_id := None\<rparr>)"
  by (simp add: SubnetConfig_init_def parse_int_demo cidr_substitute_ok_def subnet_demo_def)





lemma trace_demo: "trace w_demo = []" "trace w_empty = []"
  by (simp_all add: w_demo_def w_empty_def)

lemma run_remove_vpc_fail:
  "remove_vpc (env_fail_at 2) ''admin'' ''demo'' w_demo =
     (Inl (RemoteAPIError ''denied''),
      w_demo\<lparr>trace := trace w_demo @ [delete_internet_gateway (Vpc vpc_demo),
         delete_security_group (Vpc vpc_demo), delete_vpc (Vpc vpc_demo)]\<rparr>)"
  by (simp add: remove_vpc_run [OF load_demo(1) region_demo(1) session_demo(2)])
     (simp add: env_fail_at_def w_demo_def)

lemma run_remove_subnet_fail:
  "remove_subnet (env_fail_at 0) ''admin'' ''web'' w_demo =
     (Inl (RemoteAPIError ''denied''),
      w_demo\<lparr>trace := trace w_demo @
         [delete_subnet_route_table_association (Subnet subnet_demo)]\<rparr>)"
  by (simp add: remove_subnet_run [OF load_demo(2) region_demo(2) session_demo(2)])
     (simp add: env_fail_at_def w_demo_def)

lemma run_configure_vpc_fail:
  "configure_vpc (env_fail_at 2) ''admin'' ''eu-west-1'' ''10.0.0.0/16'' ''demo'' ''demo-sg''
      ''demo-igw'' w_empty =
     (Inl (RemoteAPIError ''denied''),
      w_empty\<lparr>trace := trace w_empty @
        [create_vpc (vpc_demo\<lparr>vpc_id := None, sg_id := None, igw_id := None\<rparr>),
         create_vpc_security_group (vpc_demo\<lparr>sg_id := None, igw_id := None\<rparr>),
         create_internet_gateway (vpc_demo\<lparr>igw_id := None\<rparr>)]\<rparr>)"
  by (simp add: configure_vpc_run [OF session_demo(2)])
     (simp add: env_fail_at_def VpcConfig_init_def vpc_demo_def w_empty_def)

lemma run_configure_subnet_fail:
  "configure_subnet (env_fail_at 0) ''admin'' ''demo'' ''web'' ''7'' ''a'' ''web-rt'' True
      w_demo =
     (Inl (RemoteAPIError ''denied''),
      w_demo\<lparr>trace := trace w_demo @
        [create_subnet
           (subnet_demo\<lparr>subnet_id := None, rt_id := None,
              subnet_rt_association_id := None\<rparr>)]\<rparr>)"
  by (simp add: configure_subnet_run [OF load_demo(1) region_demo(1) session_demo(2) init_demo])
     (simp add: env_fail_at_def subnet_demo_def w_demo_def)

subsection \<open>The constructor of a subnet record\<close>

lemma SubnetConfig_init_ok:
  assumes "SubnetConfig_init c sn cs az rt = Inr s"
  shows "5 \<le> cidr_substitute s \<and> cidr_substitute s \<le> 254
     \<and> parse_int cs = Some (cidr_substitute s)"
  using assms
  by (auto simp: SubnetConfig_init_def cidr_substitute_ok_def
      split: sum.splits option.splits if_splits)

lemma SubnetConfig_init_rejects:
  assumes "\<forall>k. parse_int cs = Some k \<longrightarrow> k < 5 \<or> 254 < k"
  shows "\<exists>err. SubnetConfig_init c sn cs az rt = Inl err"
proof (cases "SubnetConfig_init c sn cs az rt")
  case (Inl err)
  then show ?thesis by blast
next
  case (Inr s)
  from SubnetConfig_init_ok [OF Inr] assms show ?thesis by auto
qed

lemma SubnetConfig_from_config_ok:
  assumes "SubnetConfig_from_config j = Inr s"
  shows "5 \<le> cidr_substitute s \<and> cidr_substitute s \<le> 254"
proof (cases j)
  case (JObject kv)
  with assms have "subnet_of_dict kv = Some s"
    by (auto simp: SubnetConfig_from_config_def split: option.splits)
  then show ?thesis
    by (auto simp: subnet_of_dict_def cidr_substitute_ok_def bind_eq_Some_conv
        split: if_splits simp del: get_str.simps get_id.simps get_int.simps)
qed (use assms in \<open>auto simp: SubnetConfig_from_config_def\<close>)

subsection \<open>Claims\<close>





text \<open>
  Claim C3. Loading fails with \<open>NotFoundError\<close> when the file does not exist, whatever
  its name. It fails with \<open>MalformedConfigError\<close> when the file exists and is not
  JSON, whatever its name, and when its document does not have the shape of the record
  its name announces: a VPC record for a name beginning with \<^verbatim>\<open>vpc\<close>, a subnet record
  for a name beginning with \<^verbatim>\<open>subnet\<close>.
\<close>

theorem load_config_errors:
  "(files w name = None \<longrightarrow> load_config name w = Inl NotFoundError)
   \<and> (files w name = Some NotJson \<longrightarrow> load_config name w = Inl MalformedConfigError)
   \<and> (files w name = Some (Document j) \<and> startswith name ''vpc'' \<and> \<not> vpc_shape j
        \<longrightarrow> load_config name w = Inl MalformedConfigError)
   \<and> (files w name = Some (Document j) \<and> \<not> startswith name ''vpc''
        \<and> startswith name ''subnet'' \<and> \<not> subnet_shape j
        \<longrightarrow> load_config name w = Inl MalformedConfigError)"
  using VpcConfig_from_config_error [of j MalformedConfigError]
    SubnetConfig_from_config_error [of j MalformedConfigError]
  by (auto simp: load_config_def)

theorem load_config_errors_witness:
  "load_config ''vpc_ghost_config.json'' w_broken = Inl NotFoundError
   \<and> load_config ''vpc_demo_config.json'' w_broken = Inl MalformedConfigError
   \<and> load_config ''vpc_old_config.json'' w_broken = Inl MalformedConfigError
   \<and> load_config ''subnet_web_config.json'' w_broken = Inl MalformedConfigError"
proof -
  have 1: "files w_broken ''vpc_ghost_config.json'' = None"
    and 2: "files w_broken ''vpc_demo_config.json'' = Some NotJson"
    and 3: "files w_broken ''vpc_old_config.json''
              = Some (Document (JObject [(''region'', JInt 3)]))
        \<and> startswith ''vpc_old_config.json'' ''vpc''
        \<and> \<not> vpc_shape (JObject [(''region'', JInt 3)])"
    and 4: "files w_broken ''subnet_web_config.json'' = Some (Document (JArray []))
        \<and> \<not> startswith ''subnet_web_config.json'' ''vpc''
        \<and> startswith ''subnet_web_config.json'' ''subnet'' \<and> \<not> subnet_shape (JArray [])"
    by (simp_all add: w_broken_def files_broken_def startswith_def)
  note e1 = load_config_errors [of w_broken "''vpc_ghost_config.json''" JNull]
  note e2 = load_config_errors [of w_broken "''vpc_demo_config.json''" JNull]
  note e3 = load_config_errors [of w_broken "''vpc_old_config.json''"
      "JObject [(''region'', JInt 3)]"]
  note e4 = load_config_errors [of w_broken "''subnet_web_config.json''" "JArray []"]
  have a: "load_config ''vpc_ghost_config.json'' w_broken = Inl NotFoundError"
    using e1 [THEN conjunct1] 1 by (rule mp)
  have b: "load_config ''vpc_demo_config.json'' w_broken = Inl MalformedConfigError"
    using e2 [THEN conjunct2, THEN conjunct1] 2 by (rule mp)
  have c: "load_config ''vpc_old_config.json'' w_broken = Inl MalformedConfigError"
    using e3 [THEN conjunct2, THEN conjunct2, THEN conjunct1] 3 by (rule mp)
  have d: "load_config ''subnet_web_config.json'' w_broken = Inl MalformedConfigError"
    using e4 [THEN conjunct2, THEN conjunct2, THEN conjunct2] 4 by (rule mp)
  show ?thesis using a b c d by (intro conjI)
qed

text \<open>
  Claim C4. When the file of the named VPC does not exist, \<^verbatim>\<open>remove-vpc\<close> fails with
  \<open>NotFoundError\<close> and leaves the state as it was: it has issued no remote call.
\<close>

theorem remove_vpc_missing_file:
  "files w (parse_config_file_name n ''vpc'') = None \<Longrightarrow>
   remove_vpc e p n w = (Inl NotFoundError, w) \<and> issued w (snd (remove_vpc e p n w)) = []"
  by (simp add: remove_vpc_def load_config_missing)

theorem remove_vpc_missing_file_witness:
  "remove_vpc env_ok ''admin'' ''ghost'' w_demo = (Inl NotFoundError, w_demo)
   \<and> issued w_demo (snd (remove_vpc env_ok ''admin'' ''ghost'' w_demo)) = []"
proof -
  have "files w_demo (parse_config_file_name ''ghost'' ''vpc'') = None"
    by (simp add: w_demo_def files_demo_def file_name_vpc replace_hyphen_def)
  then show ?thesis by (rule remove_vpc_missing_file)
qed

text \<open>
  Claim C5. When the file of the VPC it names does not exist, \<^verbatim>\<open>configure-subnet\<close>
  fails with \<open>NotFoundError\<close> and leaves the state as it was: it has issued no remote
  call, subnet-related or other.
\<close>

theorem configure_subnet_missing_vpc_file:
  "files w (parse_config_file_name n ''vpc'') = None \<Longrightarrow>
   configure_subnet e p n sn cs az rt pub w = (Inl NotFoundError, w)
   \<and> issued w (snd (configure_subnet e p n sn cs az rt pub w)) = []"
  by (simp add: configure_subnet_def load_config_missing)

theorem configure_subnet_missing_vpc_file_witness:
  "configure_subnet env_ok ''admin'' ''ghost'' ''web'' ''7'' ''a'' ''web-rt'' True w_demo
     = (Inl NotFoundError, w_demo)
   \<and> issued w_demo
       (snd (configure_subnet env_ok ''admin'' ''ghost'' ''web'' ''7'' ''a'' ''web-rt'' True
          w_demo))
     = []"
proof -
  have "files w_demo (parse_config_file_name ''ghost'' ''vpc'') = None"
    by (simp add: w_demo_def files_demo_def file_name_vpc replace_hyphen_def)
  then show ?thesis by (rule configure_subnet_missing_vpc_file)
qed



text \<open>
  Claim C7. A removal command deletes its file only after its three delete calls have
  succeeded. In every run: a result other than success leaves the files as they were;
  when the cloud client answers a delete call with an error, that error is the
  command's result, the failed call is the last call issued (nothing is retried or
  cleaned up) and the files are as they were; a successful run has issued three calls,
  all answered with success, and has removed exactly the record's file.
\<close>

theorem removal_failure_keeps_file:
  assumes rv: "remove_vpc e1 p1 n1 w1 = (r1, w1')"
    and rs: "remove_subnet e2 p2 n2 w2 = (r2, w2')"
  shows "(r1 \<noteq> Inr () \<longrightarrow> files w1' = files w1)
     \<and> (\<forall>err. Inl err \<in> set (outcomes e1 (trace w1) (issued w1 w1')) \<longrightarrow>
          r1 = Inl err \<and> last (outcomes e1 (trace w1) (issued w1 w1')) = Inl err
          \<and> files w1' = files w1)
     \<and> (r1 = Inr () \<longrightarrow>
          length (issued w1 w1') = 3
          \<and> list_all (\<lambda>x. \<not> isl x) (outcomes e1 (trace w1) (issued w1 w1'))
          \<and> files w1' = (files w1)(parse_config_file_name n1 ''vpc'' := None))
     \<and> (r2 \<noteq> Inr () \<longrightarrow> files w2' = files w2)
     \<and> (\<forall>err. Inl err \<in> set (outcomes e2 (trace w2) (issued w2 w2')) \<longrightarrow>
          r2 = Inl err \<and> last (outcomes e2 (trace w2) (issued w2 w2')) = Inl err
          \<and> files w2' = files w2)
     \<and> (r2 = Inr () \<longrightarrow>
          length (issued w2 w2') = 3
          \<and> list_all (\<lambda>x. \<not> isl x) (outcomes e2 (trace w2) (issued w2 w2'))
          \<and> files w2' = (files w2)(parse_config_file_name n2 ''subnet'' := None))"
proof -
  have f1: "\<And>err. r1 = Inl err \<Longrightarrow> files w1' = files w1
      \<and> (issued w1 w1' \<noteq> [] \<longrightarrow> last (outcomes e1 (trace w1) (issued w1 w1')) = Inl err
         \<and> list_all (\<lambda>x. \<not> isl x) (butlast (outcomes e1 (trace w1) (issued w1 w1'))))"
    using remove_vpc_failure [of e1 p1 n1 w1 _ w1'] rv by simp
  have s1: "r1 = Inr () \<Longrightarrow> length (issued w1 w1') = 3
          \<and> list_all (\<lambda>x. \<not> isl x) (outcomes e1 (trace w1) (issued w1 w1'))
          \<and> files w1' = (files w1)(parse_config_file_name n1 ''vpc'' := None)"
    using remove_vpc_success [of e1 p1 n1 w1 w1'] rv by auto
  have f2: "\<And>err. r2 = Inl err \<Longrightarrow> files w2' = files w2
      \<and> (issued w2 w2' \<noteq> [] \<longrightarrow> last (outcomes e2 (trace w2) (issued w2 w2')) = Inl err
         \<and> list_all (\<lambda>x. \<not> isl x) (butlast (outcomes e2 (trace w2) (issued w2 w2'))))"
    using remove_subnet_failure [of e2 p2 n2 w2 _ w2'] rs by simp
  have s2: "r2 = Inr () \<Longrightarrow> length (issued w2 w2') = 3
          \<and> list_all (\<lambda>x. \<not> isl x) (outcomes e2 (trace w2) (issued w2 w2'))
          \<and> files w2' = (files w2)(parse_config_file_name n2 ''subnet'' := None)"
    using remove_subnet_success [of e2 p2 n2 w2 w2'] rs by auto
  have a1: "r1 \<noteq> Inr () \<longrightarrow> files w1' = files w1"
    using f1 by (cases r1) simp_all
  have a2: "r2 \<noteq> Inr () \<longrightarrow> files w2' = files w2"
    using f2 by (cases r2) simp_all
  have b1: "\<forall>err. Inl err \<in> set (outcomes e1 (trace w1) (issued w1 w1')) \<longrightarrow>
          r1 = Inl err \<and> last (outcomes e1 (trace w1) (issued w1 w1')) = Inl err
          \<and> files w1' = files w1"
    using failed_run [of r1 w1' w1 "issued w1 w1'" e1 "trace w1", OF f1] s1 by blast
  have b2: "\<forall>err. Inl err \<in> set (outcomes e2 (trace w2) (issued w2 w2')) \<longrightarrow>
          r2 = Inl err \<and> last (outcomes e2 (trace w2) (issued w2 w2')) = Inl err
          \<and> files w2' = files w2"
    using failed_run [of r2 w2' w2 "issued w2 w2'" e2 "trace w2", OF f2] s2 by blast
  from a1 b1 s1 a2 b2 s2 show ?thesis by (intro conjI impI) simp_all
qed

theorem removal_failure_keeps_file_witness:
  "fst (remove_vpc (env_fail_at 2) ''admin'' ''demo'' w_demo) = Inl (RemoteAPIError ''denied'')
   \<and> files (snd (remove_vpc (env_fail_at 2) ''admin'' ''demo'' w_demo)) = files w_demo
   \<and> fst (remove_subnet (env_fail_at 0) ''admin'' ''web'' w_demo)
       = Inl (RemoteAPIError ''denied'')
   \<and> files (snd (remove_subnet (env_fail_at 0) ''admin'' ''web'' w_demo)) = files w_demo"
proof -
  note t = removal_failure_keeps_file [OF run_remove_vpc_fail run_remove_subnet_fail]
  have o1: "Inl (RemoteAPIError ''denied'') \<in> set (outcomes (env_fail_at 2) (trace w_demo)
      (issued w_demo (w_demo\<lparr>trace := trace w_demo @
         [delete_internet_gateway (Vpc vpc_demo), delete_security_group (Vpc vpc_demo),
          delete_vpc (Vpc vpc_demo)]\<rparr>)))"
    by (simp only: issued_append) (simp add: env_fail_at_def trace_demo)
  have o2: "Inl (RemoteAPIError ''denied'') \<in> set (outcomes (env_fail_at 0) (trace w_demo)
      (issued w_demo (w_demo\<lparr>trace := trace w_demo @
         [delete_subnet_route_table_association (Subnet subnet_demo)]\<rparr>)))"
    by (simp only: issued_append) (simp add: env_fail_at_def trace_demo)
  from t [THEN conjunct2, THEN conjunct1, THEN spec, THEN mp, OF o1]
  have a: "files (w_demo\<lparr>trace := trace w_demo @
         [delete_internet_gateway (Vpc vpc_demo), delete_security_group (Vpc vpc_demo),
          delete_vpc (Vpc vpc_demo)]\<rparr>)
       = files w_demo" by (rule conjunct2 [THEN conjunct2])
  from t [THEN conjunct2, THEN conjunct2, THEN conjunct2, THEN conjunct2, THEN conjunct1,
      THEN spec, THEN mp, OF o2]
  have b: "files (w_demo\<lparr>trace := trace w_demo @
         [delete_subnet_route_table_association (Subnet subnet_demo)]\<rparr>) = files w_demo"
    by (rule conjunct2 [THEN conjunct2])
  show ?thesis using a b by (simp add: run_remove_vpc_fail run_remove_subnet_fail)
qed



text \<open>
  Claim C9. The CIDR-octet substitute of a subnet record is an integer within 5..254:
  of every record the constructor builds and of every record read from a document. An
  invocation of \<^verbatim>\<open>configure-subnet\<close> whose \<^verbatim>\<open>cidr_substitute\<close> is not a decimal
  integer, or lies outside 5..254, does not succeed and leaves the state as it was, so
  it persists nothing; a successful invocation has persisted a record whose value is
  the integer given, within the range. The check is the constructor's, modelled from
  the specification: \<^verbatim>\<open>main.py\<close> declares the option as a string, states the range
  in its help text and passes the value on unchecked.
\<close>

theorem cidr_substitute_constrained:
  "(SubnetConfig_init c sn cs az rt = Inr s \<longrightarrow>
      5 \<le> cidr_substitute s \<and> cidr_substitute s \<le> 254
      \<and> parse_int cs = Some (cidr_substitute s))
   \<and> (SubnetConfig_from_config j = Inr s' \<longrightarrow>
      5 \<le> cidr_substitute s' \<and> cidr_substitute s' \<le> 254)
   \<and> ((\<forall>k. parse_int cs = Some k \<longrightarrow> k < 5 \<or> 254 < k) \<longrightarrow>
      fst (configure_subnet e p n sn cs az rt pub w) \<noteq> Inr ()
      \<and> snd (configure_subnet e p n sn cs az rt pub w) = w)
   \<and> (configure_subnet e p n sn cs az rt pub w = (Inr (), w') \<longrightarrow>
      (\<exists>x. files w' (parse_config_file_name sn ''subnet'')
              = Some (Document (JObject (SubnetConfig_dict x)))
         \<and> parse_int cs = Some (cidr_substitute x)
         \<and> 5 \<le> cidr_substitute x \<and> cidr_substitute x \<le> 254))"
proof -
  have 1: "SubnetConfig_init c sn cs az rt = Inr s \<longrightarrow>
      5 \<le> cidr_substitute s \<and> cidr_substitute s \<le> 254
      \<and> parse_int cs = Some (cidr_substitute s)"
    using SubnetConfig_init_ok [of c sn cs az rt s] by (rule impI)
  have 2: "SubnetConfig_from_config j = Inr s' \<longrightarrow>
      5 \<le> cidr_substitute s' \<and> cidr_substitute s' \<le> 254"
    using SubnetConfig_from_config_ok [of j s'] by (rule impI)
  have 3: "(\<forall>k. parse_int cs = Some k \<longrightarrow> k < 5 \<or> 254 < k) \<longrightarrow>
      fst (configure_subnet e p n sn cs az rt pub w) \<noteq> Inr ()
      \<and> snd (configure_subnet e p n sn cs az rt pub w) = w"
  proof
    assume bad: "\<forall>k. parse_int cs = Some k \<longrightarrow> k < 5 \<or> 254 < k"
    obtain r v where run: "configure_subnet e p n sn cs az rt pub w = (r, v)"
      by (cases "configure_subnet e p n sn cs az rt pub w") blast
    from run have "r \<noteq> Inr () \<and> v = w"
    proof (cases rule: configure_subnet_cases)
      case (abort err)
      then show ?thesis by simp
    next
      case (run c' rg s0)
      with SubnetConfig_init_rejects [OF bad, of c' sn az rt] show ?thesis by simp
    qed
    with run show "fst (configure_subnet e p n sn cs az rt pub w) \<noteq> Inr ()
        \<and> snd (configure_subnet e p n sn cs az rt pub w) = w" by simp
  qed
  have 4: "configure_subnet e p n sn cs az rt pub w = (Inr (), w') \<longrightarrow>
      (\<exists>x. files w' (parse_config_file_name sn ''subnet'')
              = Some (Document (JObject (SubnetConfig_dict x)))
         \<and> parse_int cs = Some (cidr_substitute x)
         \<and> 5 \<le> cidr_substitute x \<and> cidr_substitute x \<le> 254)"
  proof
    assume "configure_subnet e p n sn cs az rt pub w = (Inr (), w')"
    from configure_subnet_success [OF this]
    obtain c' s0 i1 i2 i3 where i: "SubnetConfig_init c' sn cs az rt = Inr s0"
      and f: "files w' = (files w)(parse_config_file_name sn ''subnet'' \<mapsto>
                 Document (JObject (SubnetConfig_dict
                   (s0\<lparr>subnet_id := Some i1, rt_id := Some i2,
                       subnet_rt_association_id := Some i3\<rparr>))))"
      by blast
    from SubnetConfig_init_ok [OF i] f
    show "\<exists>x. files w' (parse_config_file_name sn ''subnet'')
                = Some (Document (JObject (SubnetConfig_dict x)))
           \<and> parse_int cs = Some (cidr_substitute x)
           \<and> 5 \<le> cidr_substitute x \<and> cidr_substitute x \<le> 254"
      by (intro exI [of _ "s0\<lparr>subnet_id := Some i1, rt_id := Some i2,
                       subnet_rt_association_id := Some i3\<rparr>"]) simp
  qed
  from 1 2 3 4 show ?thesis by (intro conjI)
qed

theorem cidr_substitute_constrained_witness:
  "fst (configure_subnet env_ok ''admin'' ''demo'' ''web'' ''300'' ''a'' ''web-rt'' True w_demo)
     \<noteq> Inr ()
   \<and> snd (configure_subnet env_ok ''admin'' ''demo'' ''web'' ''300'' ''a'' ''web-rt'' True
       w_demo) = w_demo
   \<and> fst (configure_subnet env_ok ''admin'' ''demo'' ''web'' ''abc'' ''a'' ''web-rt'' True
       w_demo) \<noteq> Inr ()
   \<and> snd (configure_subnet env_ok ''admin'' ''demo'' ''web'' ''abc'' ''a'' ''web-rt'' True
       w_demo) = w_demo"
proof -
  have 1: "\<forall>k. parse_int ''300'' = Some k \<longrightarrow> k < 5 \<or> 254 < k"
    and 2: "\<forall>k. parse_int ''abc'' = Some k \<longrightarrow> k < 5 \<or> 254 < k"
    by (simp_all add: parse_int_demo)
  note a = cidr_substitute_constrained [where cs = "''300''" and sn = "''web''"
      and az = "''a''" and rt = "''web-rt''" and e = env_ok and p = "''admin''"
      and n = "''demo''" and pub = True and w = w_demo,
      THEN conjunct2, THEN conjunct2, THEN conjunct1, THEN mp, OF 1]
  note b = cidr_substitute_constrained [where cs = "''abc''" and sn = "''web''"
      and az = "''a''" and rt = "''web-rt''" and e = env_ok and p = "''admin''"
      and n = "''demo''" and pub = True and w = w_demo,
      THEN conjunct2, THEN conjunct2, THEN conjunct1, THEN mp, OF 2]
  show ?thesis
    using a [THEN conjunct1] a [THEN conjunct2] b [THEN conjunct1] b [THEN conjunct2]
    by (intro conjI)
qed

text \<open>
  Claim C10. A creation command writes its file only after its three create calls have
  returned. In every run: a result other than success leaves the files as they were;
  when the cloud client answers a create call with an error, that error is the
  command's result and the files are as they were; when the files have changed, the
  command has succeeded and its three calls were all answered with an identifier.
\<close>

theorem creation_failure_writes_no_file:
  assumes cv: "configure_vpc e1 p1 rg1 cidr1 n1 sg1 igw1 w1 = (r1, w1')"
    and cs: "configure_subnet e2 p2 n2 sn2 cs2 az2 rt2 pub2 w2 = (r2, w2')"
  shows "(r1 \<noteq> Inr () \<longrightarrow> files w1' = files w1)
     \<and> (\<forall>err. Inl err \<in> set (outcomes e1 (trace w1) (issued w1 w1')) \<longrightarrow>
          r1 = Inl err \<and> files w1' = files w1)
     \<and> (files w1' \<noteq> files w1 \<longrightarrow>
          r1 = Inr () \<and> length (issued w1 w1') = 3
          \<and> list_all (\<lambda>x. \<not> isl x) (outcomes e1 (trace w1) (issued w1 w1')))
     \<and> (r2 \<noteq> Inr () \<longrightarrow> files w2' = files w2)
     \<and> (\<forall>err. Inl err \<in> set (outcomes e2 (trace w2) (issued w2 w2')) \<longrightarrow>
          r2 = Inl err \<and> files w2' = files w2)
     \<and> (files w2' \<noteq> files w2 \<longrightarrow>
          r2 = Inr () \<and> length (issued w2 w2') = 3
          \<and> list_all (\<lambda>x. \<not> isl x) (outcomes e2 (trace w2) (issued w2 w2')))"
proof -
  have f1: "\<And>err. r1 = Inl err \<Longrightarrow> files w1' = files w1
      \<and> (issued w1 w1' \<noteq> [] \<longrightarrow> last (outcomes e1 (trace w1) (issued w1 w1')) = Inl err
         \<and> list_all (\<lambda>x. \<not> isl x) (butlast (outcomes e1 (trace w1) (issued w1 w1'))))"
    using configure_vpc_failure [of e1 p1 rg1 cidr1 n1 sg1 igw1 w1 _ w1'] cv by simp
  have s1: "r1 = Inr () \<Longrightarrow> length (issued w1 w1') = 3
          \<and> list_all (\<lambda>x. \<not> isl x) (outcomes e1 (trace w1) (issued w1 w1'))"
    using configure_vpc_success [of e1 p1 rg1 cidr1 n1 sg1 igw1 w1 w1'] cv by auto
  have f2: "\<And>err. r2 = Inl err \<Longrightarrow> files w2' = files w2
      \<and> (issued w2 w2' \<noteq> [] \<longrightarrow> last (outcomes e2 (trace w2) (issued w2 w2')) = Inl err
         \<and> list_all (\<lambda>x. \<not> isl x) (butlast (outcomes e2 (trace w2) (issued w2 w2'))))"
    using configure_subnet_failure [of e2 p2 n2 sn2 cs2 az2 rt2 pub2 w2 _ w2'] cs by simp
  have s2: "r2 = Inr () \<Longrightarrow> length (issued w2 w2') = 3
          \<and> list_all (\<lambda>x. \<not> isl x) (outcomes e2 (trace w2) (issued w2 w2'))"
    using configure_subnet_success [of e2 p2 n2 sn2 cs2 az2 rt2 pub2 w2 w2'] cs by auto
  have a1: "r1 \<noteq> Inr () \<longrightarrow> files w1' = files w1"
    using f1 by (cases r1) simp_all
  have a2: "r2 \<noteq> Inr () \<longrightarrow> files w2' = files w2"
    using f2 by (cases r2) simp_all
  have b1: "\<forall>err. Inl err \<in> set (outcomes e1 (trace w1) (issued w1 w1')) \<longrightarrow>
          r1 = Inl err \<and> files w1' = files w1"
    using failed_run [of r1 w1' w1 "issued w1 w1'" e1 "trace w1", OF f1] s1 by blast
  have b2: "\<forall>err. Inl err \<in> set (outcomes e2 (trace w2) (issued w2 w2')) \<longrightarrow>
          r2 = Inl err \<and> files w2' = files w2"
    using failed_run [of r2 w2' w2 "issued w2 w2'" e2 "trace w2", OF f2] s2 by blast
  have c1: "files w1' \<noteq> files w1 \<longrightarrow>
          r1 = Inr () \<and> length (issued w1 w1') = 3
          \<and> list_all (\<lambda>x. \<not> isl x) (outcomes e1 (trace w1) (issued w1 w1'))"
    using a1 s1 by blast
  have c2: "files w2' \<noteq> files w2 \<longrightarrow>
          r2 = Inr () \<and> length (issued w2 w2') = 3
          \<and> list_all (\<lambda>x. \<not> isl x) (outcomes e2 (trace w2) (issued w2 w2'))"
    using a2 s2 by blast
  from a1 b1 c1 a2 b2 c2 show ?thesis by (intro conjI)
qed

theorem creation_failure_writes_no_file_witness:
  "fst (configure_vpc (env_fail_at 2) ''admin'' ''eu-west-1'' ''10.0.0.0/16'' ''demo''
      ''demo-sg'' ''demo-igw'' w_empty) = Inl (RemoteAPIError ''denied'')
   \<and> files (snd (configure_vpc (env_fail_at 2) ''admin'' ''eu-west-1'' ''10.0.0.0/16'' ''demo''
      ''demo-sg'' ''demo-igw'' w_empty)) = files w_empty
   \<and> fst (configure_subnet (env_fail_at 0) ''admin'' ''demo'' ''web'' ''7'' ''a'' ''web-rt''
      True w_demo) = Inl (RemoteAPIError ''denied'')
   \<and> files (snd (configure_subnet (env_fail_at 0) ''admin'' ''demo'' ''web'' ''7'' ''a''
      ''web-rt'' True w_demo)) = files w_demo"
proof -
  note t = creation_failure_writes_no_file [OF run_configure_vpc_fail run_configure_subnet_fail]
  have n1: "Inl (RemoteAPIError ''denied'') \<noteq> (Inr () :: error + unit)" by simp
  from t [THEN conjunct1, THEN mp, OF n1]
  have a: "files (w_empty\<lparr>trace := trace w_empty @
        [create_vpc (vpc_demo\<lparr>vpc_id := None, sg_id := None, igw_id := None\<rparr>),
         create_vpc_security_group (vpc_demo\<lparr>sg_id := None, igw_id := None\<rparr>),
         create_internet_gateway (vpc_demo\<lparr>igw_id := None\<rparr>)]\<rparr>) = files w_empty" .
  from t [THEN conjunct2, THEN conjunct2, THEN conjunct2, THEN conjunct1, THEN mp, OF n1]
  have b: "files (w_demo\<lparr>trace := trace w_demo @
        [create_subnet
           (subnet_demo\<lparr>subnet_id := None, rt_id := None,
              subnet_rt_association_id := None\<rparr>)]\<rparr>)
       = files w_demo" .
  show ?thesis using a b by (simp add: run_configure_vpc_fail run_configure_subnet_fail)
qed

end
